theory Spec2Isabelle
  imports Main "HOL-Library.Sublist" "HOL-Library.Word"
begin

section \<open>The browser environment\<close>

text \<open>
  The two scripts are glue over browser facilities: \<^verbatim>\<open>FileReader\<close>, \<^verbatim>\<open>DOMParser\<close>,
  \<^verbatim>\<open>Image\<close>, \<^verbatim>\<open>encodeURIComponent\<close>, \<^verbatim>\<open>localStorage\<close>. None of them is code of the
  repository, so each is a parameter of the model, collected in the record \<open>browser\<close>.
  JavaScript strings are modelled as \<open>string\<close>; the scripts only store, compare and
  concatenate them.
\<close>

type_synonym byte = "8 word"

record File =
  ftype :: string
  fbytes :: "byte list"

record browser =
  readAsText :: "byte list \<Rightarrow> string"
  readAsDataURL :: "File \<Rightarrow> string"
  parsererror :: "string \<Rightarrow> bool"
  textareaValue :: "string \<Rightarrow> string"
  imageSize :: "string \<Rightarrow> (nat \<times> nat) option"
  encodeURIComponent :: "string \<Rightarrow> string"

text \<open>
  \<^item> \<open>readAsText br bs\<close> is \<^verbatim>\<open>e.target.result\<close> of a completed \<^verbatim>\<open>reader.readAsText(file)\<close>:
    the bytes decoded as UTF-8, the default encoding of that call.
  \<^item> \<open>readAsDataURL br f\<close> is \<^verbatim>\<open>e.target.result\<close> of a completed \<^verbatim>\<open>reader.readAsDataURL(file)\<close>.
  \<^item> \<open>parsererror br t\<close> holds when the document that
    \<^verbatim>\<open>parser.parseFromString(t, "image/svg+xml")\<close> returns has a \<^verbatim>\<open>parsererror\<close> element, that is
    when \<open>t\<close> is not well-formed XML.
  \<^item> \<open>textareaValue br t\<close> is what the \<^verbatim>\<open>value\<close> of a text area returns after \<open>t\<close> has been
    assigned to it. It need not be \<open>t\<close>: the HTML standard has the getter normalise line
    ends, as \<open>normalize_newlines\<close> below does.
  \<^item> \<open>imageSize br url\<close> is \<open>Some (width, height)\<close> when an \<^verbatim>\<open>Image\<close> whose \<^verbatim>\<open>src\<close> is \<open>url\<close>
    fires \<^verbatim>\<open>load\<close>, and \<open>None\<close> when it fires \<^verbatim>\<open>error\<close>.
  A \<^verbatim>\<open>FileReader\<close> ends with one of two events, whatever the bytes are.
\<close>

datatype io_event = Load | Error

text \<open>
  The rule of the HTML standard for the value a text area returns: every CR LF pair and
  every other CR becomes one LF, and nothing else changes.
\<close>

fun normalize_newlines :: "string \<Rightarrow> string" where
  "normalize_newlines (c # d # cs) =
     (if c = CHR 0x0D \<and> d = CHR 0x0A then CHR 0x0A # normalize_newlines cs
      else if c = CHR 0x0D then CHR 0x0A # normalize_newlines (d # cs)
      else c # normalize_newlines (d # cs))"
| "normalize_newlines [c] = (if c = CHR 0x0D then [CHR 0x0A] else [c])"
| "normalize_newlines [] = []"

section \<open>script.js: the shared script\<close>

subsection \<open>State\<close>

text \<open>
  The state is the part of the DOM and of the closure that the handlers read or write.
  \<^verbatim>\<open>outputPlaceholder\<close>, \<^verbatim>\<open>outputContent\<close>, \<^verbatim>\<open>svgPreview\<close> and \<^verbatim>\<open>notification\<close> are used
  unguarded and are taken to exist. The elements the script tests for
  (\<^verbatim>\<open>fileInput\<close>, \<^verbatim>\<open>svgCode\<close>, \<^verbatim>\<open>copyBtn\<close>, \<^verbatim>\<open>downloadBtn\<close>) may be absent: an optional
  value is \<open>None\<close> when its element is.
\<close>

datatype continuation = Discard | ConfirmClear

record msgbox =
  title :: string
  message :: string
  isConfirm :: bool
  awaiting :: continuation

record page =
  placeholder_hidden :: bool
  content_hidden :: bool
  svgPreview :: string
  fileInput :: "string option"
  svgCode :: "string option"
  copyBtn :: bool
  downloadBtn :: bool
  dataset_svgContent :: "string option"
  currentSvgContent :: string
  notification_text :: string
  notification_classes :: "string list"
  notificationTimeout :: bool
  overlay :: "msgbox option"

text \<open>
  \<^item> \<open>placeholder_hidden\<close>, \<open>content_hidden\<close>: whether the class list of
    \<^verbatim>\<open>outputPlaceholder\<close>, of \<^verbatim>\<open>outputContent\<close>, contains \<^verbatim>\<open>hidden\<close>.
  \<^item> \<open>svgPreview\<close>: the markup last assigned to \<^verbatim>\<open>svgPreview.innerHTML\<close>; \<open>fileInput\<close>: the
    \<^verbatim>\<open>value\<close> of the file input.
  \<^item> \<open>svgCode\<close>: what \<^verbatim>\<open>svgCode.value\<close> returns. An assignment of a text read from a file
    goes through \<open>textareaValue\<close>; the empty string, which the reset assigns, has no line
    end and reads back empty.
  \<^item> \<open>dataset_svgContent\<close>: \<^verbatim>\<open>downloadBtn.dataset.svgContent\<close>, \<open>None\<close> while never assigned.
  \<^item> \<open>currentSvgContent\<close>: the closure variable of the image page, declared \<^verbatim>\<open>''\<close>.
  \<^item> \<open>notificationTimeout\<close>: whether the three-second timer of the toast is armed.
  \<^item> \<open>overlay\<close>: the \<^verbatim>\<open>.msgbox-overlay\<close> element in the body, with what awaits its promise.
\<close>

subsection \<open>Notifications and reset\<close>

definition classList_add :: "string \<Rightarrow> string list \<Rightarrow> string list" where
  "classList_add c cs = (if c \<in> set cs then cs else cs @ [c])"

definition classList_remove :: "string \<Rightarrow> string list \<Rightarrow> string list" where
  "classList_remove c cs = removeAll c cs"

definition showNotification :: "page \<Rightarrow> string \<Rightarrow> string \<Rightarrow> page" where
  "showNotification s msg type =
     s\<lparr>notification_text := msg,
       notification_classes := classList_add ''show'' (classList_add type [''notification'']),
       notificationTimeout := True\<rparr>"

definition notification_timer_fires :: "page \<Rightarrow> page" where
  "notification_timer_fires s =
     (if notificationTimeout s
      then s\<lparr>notification_classes := classList_remove ''show'' (notification_classes s),
             notificationTimeout := False\<rparr>
      else s)"

definition resetView :: "page \<Rightarrow> page" where
  "resetView s =
     s\<lparr>placeholder_hidden := False,
       content_hidden := True,
       svgPreview := '''',
       fileInput := map_option (\<lambda>_. '''') (fileInput s),
       svgCode := map_option (\<lambda>_. '''') (svgCode s),
       dataset_svgContent := (if downloadBtn s then Some '''' else dataset_svgContent s)\<rparr>"

text \<open>The override that the image page installs as \<^verbatim>\<open>window.resetView\<close>.\<close>

definition window_resetView :: "page \<Rightarrow> page" where
  "window_resetView s = (resetView s)\<lparr>currentSvgContent := ''''\<rparr>"

subsection \<open>The SVG page\<close>

text \<open>
  A processor returns the new state and the reads it has started; the callbacks of a read
  are separate functions, run when the read completes.
\<close>

datatype task = SvgRead File | ImageRead File

definition processSvgFile :: "page \<Rightarrow> File option \<Rightarrow> page \<times> task list" where
  "processSvgFile s fo =
     (case fo of
        None \<Rightarrow> (s, [])
      | Some f \<Rightarrow>
          if ftype f \<noteq> ''image/svg+xml''
          then (showNotification s ''Invalid file type. Please upload an SVG.'' ''error'', [])
          else (s, [SvgRead f]))"

text \<open>
  The body of the \<^verbatim>\<open>try\<close> block: \<open>Inl\<close> carries the message of the thrown \<^verbatim>\<open>Error\<close>. The
  throw comes before the first assignment, so a failure carries no partial state. The
  handlers of this subsection are created only on a page that has \<^verbatim>\<open>svgCode\<close> and
  \<^verbatim>\<open>copyBtn\<close>; an assignment to \<^verbatim>\<open>svgCodeEl.value\<close> is written so that it leaves an
  absent element absent.
\<close>

definition svg_try :: "browser \<Rightarrow> page \<Rightarrow> string \<Rightarrow> string + page" where
  "svg_try br s svgContent =
     (if parsererror br svgContent then Inl ''Malformed SVG file.''
      else Inr (s\<lparr>svgPreview := svgContent,
                  svgCode := map_option (\<lambda>_. textareaValue br svgContent) (svgCode s),
                  placeholder_hidden := True,
                  content_hidden := False\<rparr>))"

definition svg_reader_onload :: "browser \<Rightarrow> page \<Rightarrow> string \<Rightarrow> page" where
  "svg_reader_onload br s svgContent =
     (case svg_try br s svgContent of
        Inr s' \<Rightarrow> s'
      | Inl msg \<Rightarrow>
          resetView (showNotification s
            (if msg = '''' then ''Could not process the SVG file.'' else msg) ''error''))"

definition svg_reader_onerror :: "page \<Rightarrow> page" where
  "svg_reader_onerror s = resetView (showNotification s ''Could not read the file.'' ''error'')"

subsection \<open>The image page\<close>

text \<open>
  \<^verbatim>\<open>`${width}`\<close> is \<^verbatim>\<open>ToString\<close> of a number; \<^verbatim>\<open>img.width\<close> and \<^verbatim>\<open>img.height\<close> are unsigned
  integers, which \<^verbatim>\<open>ToString\<close> renders in decimal without leading zeros.
\<close>

definition digit_char :: "nat \<Rightarrow> char" where
  "digit_char d = char_of (48 + d)"

function ToString :: "nat \<Rightarrow> string" where
  "ToString n = (if n < 10 then [digit_char n] else ToString (n div 10) @ [digit_char (n mod 10)])"
  by pat_completeness auto
termination
  by (relation "measure id") auto

declare ToString.simps [simp del]

text \<open>The template literal of \<^verbatim>\<open>img.onload\<close>.\<close>

definition wrapper :: "string \<Rightarrow> nat \<Rightarrow> nat \<Rightarrow> string" where
  "wrapper result width height =
     ''<svg xmlns=\"http://www.w3.org/2000/svg\" width=\"'' @ ToString width
     @ ''\" height=\"'' @ ToString height
     @ ''\" viewBox=\"0 0 '' @ ToString width @ '' '' @ ToString height
     @ ''\">\<newline>  <image href=\"'' @ result
     @ ''\" width=\"'' @ ToString width
     @ ''\" height=\"'' @ ToString height
     @ ''\"/>\<newline></svg>''"

definition processImageFile :: "page \<Rightarrow> File option \<Rightarrow> page \<times> task list" where
  "processImageFile s fo =
     (case fo of
        None \<Rightarrow> (s, [])
      | Some f \<Rightarrow>
          if \<not> prefix ''image/'' (ftype f)
          then (showNotification s ''Invalid file type. Please upload a PNG or JPG.'' ''error'', [])
          else (s, [ImageRead f]))"

definition img_onload :: "page \<Rightarrow> string \<Rightarrow> nat \<Rightarrow> nat \<Rightarrow> page" where
  "img_onload s result width height =
     s\<lparr>currentSvgContent := wrapper result width height,
       svgPreview := wrapper result width height,
       placeholder_hidden := True,
       content_hidden := False\<rparr>"

definition img_onerror :: "page \<Rightarrow> page" where
  "img_onerror s = showNotification s ''Could not load the image file.'' ''error''"

text \<open>
  \<^verbatim>\<open>reader.onload\<close> creates the image and sets its \<^verbatim>\<open>src\<close>; the image then fires \<^verbatim>\<open>load\<close> or
  \<^verbatim>\<open>error\<close>. The model runs the image's callback right after the reader's.
\<close>

definition image_reader_onload :: "browser \<Rightarrow> page \<Rightarrow> string \<Rightarrow> page" where
  "image_reader_onload br s result =
     (case imageSize br result of
        Some (width, height) \<Rightarrow> img_onload s result width height
      | None \<Rightarrow> img_onerror s)"

text \<open>Line 283 calls the \<^verbatim>\<open>resetView\<close> of the closure, not \<^verbatim>\<open>window.resetView\<close>.\<close>

definition image_reader_onerror :: "page \<Rightarrow> page" where
  "image_reader_onerror s = resetView (showNotification s ''Could not read the file.'' ''error'')"

definition downloadBtn_click :: "page \<Rightarrow> page \<times> string option" where
  "downloadBtn_click s =
     (if currentSvgContent s = ''''
      then (showNotification s ''There is no SVG to download.'' ''error'', None)
      else (s, Some (currentSvgContent s)))"

subsection \<open>File intake and completion of a read\<close>

text \<open>
  The \<^verbatim>\<open>change\<close> listeners of \<^verbatim>\<open>fileInput\<close>: one is added on a page with \<^verbatim>\<open>svgCode\<close> and
  \<^verbatim>\<open>copyBtn\<close>, one on a page with \<^verbatim>\<open>downloadBtn\<close>, in this order. The argument is
  \<^verbatim>\<open>e.target.files[0]\<close>, \<open>None\<close> for \<^verbatim>\<open>undefined\<close>.
\<close>

definition fileInput_change :: "page \<Rightarrow> File option \<Rightarrow> page \<times> task list" where
  "fileInput_change s fo =
     (let (s1, r1) = (if svgCode s \<noteq> None \<and> copyBtn s then processSvgFile s fo else (s, []));
          (s2, r2) = (if downloadBtn s then processImageFile s1 fo else (s1, []))
      in (s2, r1 @ r2))"

definition complete :: "browser \<Rightarrow> io_event \<Rightarrow> task \<Rightarrow> page \<Rightarrow> page" where
  "complete br ev t s =
     (case t of
        SvgRead f \<Rightarrow>
          (case ev of Load \<Rightarrow> svg_reader_onload br s (readAsText br (fbytes f))
                    | Error \<Rightarrow> svg_reader_onerror s)
      | ImageRead f \<Rightarrow>
          (case ev of Load \<Rightarrow> image_reader_onload br s (readAsDataURL br f)
                    | Error \<Rightarrow> image_reader_onerror s))"

text \<open>
  The \<^verbatim>\<open>drop\<close> listener calls \<^verbatim>\<open>processSvgFile\<close> or \<^verbatim>\<open>processImageFile\<close> by name. Both are
  \<^verbatim>\<open>const\<close> declarations inside the blocks of lines 196 and 253, out of the listener's scope,
  and neither script declares a global of either name: the call raises a
  \<^verbatim>\<open>ReferenceError\<close> and nothing is processed.
\<close>

datatype js_error = ReferenceError string

definition dropZone_drop :: "page \<Rightarrow> File list \<Rightarrow> js_error + page" where
  "dropZone_drop s files =
     (if svgCode s \<noteq> None then Inl (ReferenceError ''processSvgFile'')
      else Inl (ReferenceError ''processImageFile''))"

subsection \<open>Message box, Clear and Copy\<close>

definition showMsgBox :: "page \<Rightarrow> msgbox \<Rightarrow> page" where
  "showMsgBox s m = s\<lparr>overlay := Some m\<rparr>"

definition clearBtn_click :: "page \<Rightarrow> page" where
  "clearBtn_click s =
     (if \<not> placeholder_hidden s then s
      else showMsgBox s
             \<lparr>title = ''Confirm Clear'',
              message = ''Are you sure you want to clear the current SVG?'',
              isConfirm = True,
              awaiting = ConfirmClear\<rparr>)"

text \<open>
  \<^verbatim>\<open>close(value)\<close> removes the overlay and resolves the promise, both in the listener of
  \<^verbatim>\<open>transitionend\<close>, which the model takes to follow the click. The continuation of the
  Clear handler then runs: \<^verbatim>\<open>window.resetView ? window.resetView() : resetView()\<close>, where
  \<^verbatim>\<open>window.resetView\<close> is set exactly on a page with \<^verbatim>\<open>downloadBtn\<close>. \<^verbatim>\<open>showMsgBox\<close> removes a
  box that is still open, whose promise then never resolves.
\<close>

definition close :: "bool \<Rightarrow> page \<Rightarrow> page" where
  "close v s =
     (case overlay s of
        None \<Rightarrow> s
      | Some m \<Rightarrow>
          (let s' = s\<lparr>overlay := None\<rparr>
           in case awaiting m of
                Discard \<Rightarrow> s'
              | ConfirmClear \<Rightarrow>
                  if v then (if downloadBtn s' then window_resetView s' else resetView s')
                  else s'))"

datatype msgbox_click = OkBtn | CancelBtn | Backdrop

definition msgbox_clicked :: "msgbox_click \<Rightarrow> page \<Rightarrow> page" where
  "msgbox_clicked c s =
     (case c of
        OkBtn \<Rightarrow> close True s
      | CancelBtn \<Rightarrow>
          (case overlay s of
             None \<Rightarrow> s
           | Some m \<Rightarrow> if isConfirm m then close False s else s)
      | Backdrop \<Rightarrow> close False s)"

definition copyBtn_click :: "bool \<Rightarrow> page \<Rightarrow> page" where
  "copyBtn_click clipboard_ok s =
     (case svgCode s of
        None \<Rightarrow> s
      | Some v \<Rightarrow>
          if v = '''' then s
          else if clipboard_ok
          then showMsgBox s
                 \<lparr>title = ''Success!'',
                  message = ''The SVG code has been copied to your clipboard.'',
                  isConfirm = False,
                  awaiting = Discard\<rparr>
          else showNotification s ''Failed to copy to clipboard.'' ''error'')"

subsection \<open>Theme\<close>

record theme =
  dark :: bool
  stored :: "string option"
  dark_icon_hidden :: "bool option"
  light_icon_hidden :: "bool option"

text \<open>
  \<open>dark\<close>: whether the root element has the class \<^verbatim>\<open>dark\<close>; \<open>stored\<close>:
  \<^verbatim>\<open>localStorage.getItem('theme')\<close>, \<open>None\<close> for \<^verbatim>\<open>null\<close>; the icon flags are \<open>None\<close> when the
  icon element is absent.
\<close>

definition updateThemeIcons :: "bool \<Rightarrow> theme \<Rightarrow> theme" where
  "updateThemeIcons isDark t =
     (if dark_icon_hidden t \<noteq> None \<and> light_icon_hidden t \<noteq> None
      then t\<lparr>dark_icon_hidden := Some (\<not> isDark), light_icon_hidden := Some isDark\<rparr>
      else t)"

definition themeToggleBtn_click :: "theme \<Rightarrow> theme" where
  "themeToggleBtn_click t =
     (let isDark = \<not> dark t
      in updateThemeIcons isDark
           (t\<lparr>dark := isDark, stored := Some (if isDark then ''dark'' else ''light'')\<rparr>))"

text \<open>Line 120, run once when the page has loaded.\<close>

definition theme_loaded :: "theme \<Rightarrow> theme" where
  "theme_loaded t = updateThemeIcons (dark t) t"

section \<open>The self-contained script\<close>

text \<open>
  The second source file is a script for the SVG page alone. It dereferences every element
  it selects without a test, so the model covers the page on which they all exist. Its
  names carry the prefix \<open>sa\<close> where they would clash with those of the shared script.
\<close>

record standalone =
  uploadView_hidden :: bool
  previewContainer_hidden :: bool
  sa_svgPreview :: "string list"
  sa_fileInput :: string
  sa_svgCode :: string
  custom_alert :: "string option"

text \<open>
  \<^item> \<open>sa_svgPreview\<close>: the \<^verbatim>\<open>src\<close> of each \<^verbatim>\<open>img\<close> child of \<^verbatim>\<open>svgPreview\<close>.
  \<^item> \<open>sa_svgCode\<close>: what \<^verbatim>\<open>svgCode.value\<close> returns, as in the shared script.
  \<^item> \<open>custom_alert\<close>: the text of the \<^verbatim>\<open>.custom-alert\<close> box in the body. The timer that removes
    the box after three seconds is left out.
\<close>

definition handleFile :: "standalone \<Rightarrow> File option \<Rightarrow> standalone \<times> File option" where
  "handleFile u fo =
     (case fo of
        Some f \<Rightarrow>
          if ftype f = ''image/svg+xml'' then (u, Some f)
          else (u\<lparr>custom_alert := Some ''Please select a valid SVG file.''\<rparr>, None)
      | None \<Rightarrow> (u\<lparr>custom_alert := Some ''Please select a valid SVG file.''\<rparr>, None))"

text \<open>\<^verbatim>\<open>reader.onload\<close> of \<^verbatim>\<open>handleFile\<close>; the reader has no \<^verbatim>\<open>onerror\<close>.\<close>

definition handleFile_onload :: "browser \<Rightarrow> standalone \<Rightarrow> string \<Rightarrow> standalone" where
  "handleFile_onload br u svgContent =
     u\<lparr>sa_svgPreview := [''data:image/svg+xml,'' @ encodeURIComponent br svgContent],
       sa_svgCode := textareaValue br svgContent,
       uploadView_hidden := True,
       previewContainer_hidden := False\<rparr>"

definition sa_dropZone_drop :: "standalone \<Rightarrow> File list \<Rightarrow> standalone \<times> File option" where
  "sa_dropZone_drop u files =
     (case files of [] \<Rightarrow> (u, None) | f # _ \<Rightarrow> handleFile u (Some f))"

definition resetBtn_click :: "standalone \<Rightarrow> standalone" where
  "resetBtn_click u =
     u\<lparr>uploadView_hidden := False,
       previewContainer_hidden := True,
       sa_fileInput := '''',
       sa_svgPreview := [],
       sa_svgCode := ''''\<rparr>"

record sa_theme =
  sa_dark :: bool
  sa_stored :: "string option"
  sa_dark_icon_hidden :: bool
  sa_light_icon_hidden :: bool

definition sa_updateThemeIcons :: "sa_theme \<Rightarrow> sa_theme" where
  "sa_updateThemeIcons t =
     (if sa_dark t
      then t\<lparr>sa_light_icon_hidden := False, sa_dark_icon_hidden := True\<rparr>
      else t\<lparr>sa_dark_icon_hidden := False, sa_light_icon_hidden := True\<rparr>)"

definition themeToggleButton_click :: "sa_theme \<Rightarrow> sa_theme" where
  "themeToggleButton_click t =
     (let t1 = t\<lparr>sa_dark := \<not> sa_dark t\<rparr>;
          isDarkMode = sa_dark t1
      in sa_updateThemeIcons (t1\<lparr>sa_stored := Some (if isDarkMode then ''dark'' else ''light'')\<rparr>))"

section \<open>Vocabulary of the specification\<close>

text \<open>
  Document State of the specification, read off the state of each script: the two view
  modes, the stored text and the preview.
\<close>

definition shows_result :: "page \<Rightarrow> bool" where
  "shows_result s = (placeholder_hidden s \<and> \<not> content_hidden s)"

definition shows_placeholder :: "page \<Rightarrow> bool" where
  "shows_placeholder s = (\<not> placeholder_hidden s \<and> content_hidden s)"

definition document ::
  "page \<Rightarrow> bool \<times> bool \<times> string \<times> string option \<times> string option \<times> string option \<times> string" where
  "document s =
     (placeholder_hidden s, content_hidden s, svgPreview s, fileInput s, svgCode s,
      dataset_svgContent s, currentSvgContent s)"

definition notified :: "page \<Rightarrow> string \<Rightarrow> bool" where
  "notified s msg = (notification_text s = msg \<and> ''show'' \<in> set (notification_classes s))"

definition sa_shows_result :: "standalone \<Rightarrow> bool" where
  "sa_shows_result u = (uploadView_hidden u \<and> \<not> previewContainer_hidden u)"

definition sa_shows_placeholder :: "standalone \<Rightarrow> bool" where
  "sa_shows_placeholder u = (\<not> uploadView_hidden u \<and> previewContainer_hidden u)"

text \<open>
  The wrapper document in the words of the specification: a root element that declares
  the namespace, the width, the height and the view box, around one \<^verbatim>\<open>image\<close> element.
\<close>

definition attribute :: "string \<Rightarrow> string \<Rightarrow> string" where
  "attribute name v = name @ ''=\"'' @ v @ ''\"''"

definition start_tag :: "string \<Rightarrow> string list \<Rightarrow> string" where
  "start_tag name attrs = ''<'' @ name @ concat (map (\<lambda>a. '' '' @ a) attrs) @ ''>''"

definition empty_element :: "string \<Rightarrow> string list \<Rightarrow> string" where
  "empty_element name attrs = ''<'' @ name @ concat (map (\<lambda>a. '' '' @ a) attrs) @ ''/>''"

definition wrapper_root :: "nat \<Rightarrow> nat \<Rightarrow> string" where
  "wrapper_root W H =
     start_tag ''svg''
       [attribute ''xmlns'' ''http://www.w3.org/2000/svg'',
        attribute ''width'' (ToString W),
        attribute ''height'' (ToString H),
        attribute ''viewBox'' (''0 0 '' @ ToString W @ '' '' @ ToString H)]"

definition wrapper_image :: "string \<Rightarrow> nat \<Rightarrow> nat \<Rightarrow> string" where
  "wrapper_image uri W H =
     empty_element ''image''
       [attribute ''href'' uri,
        attribute ''width'' (ToString W),
        attribute ''height'' (ToString H)]"

text \<open>The number a string of decimal digits denotes.\<close>

definition decimal_value :: "string \<Rightarrow> nat" where
  "decimal_value t = foldl (\<lambda>a c. 10 * a + (of_char c - 48)) 0 t"

section \<open>A concrete environment\<close>

text \<open>
  One browser and a few files and pages, on which the handlers are run. The text decoder
  reads each byte as one character, which is UTF-8 on the bytes below 128 that the
  files here hold; the parser accepts the \<^verbatim>\<open>icon.svg\<close> of the specification, with or
  without a line end CR LF after it; the text area follows the HTML standard;
  the data URL is that of the eight bytes of \<open>png_bytes\<close> or of no bytes at all; the image
  decoder knows the first as a picture of 100 by 50 pixels and fails on the second; the
  encoder is \<^verbatim>\<open>encodeURIComponent\<close> on characters below 128.
\<close>

definition ascii :: "string \<Rightarrow> byte list" where
  "ascii t = map (\<lambda>c. of_nat (of_char c)) t"

definition bytewise :: "byte list \<Rightarrow> string" where
  "bytewise bs = map (\<lambda>b. char_of (unat b)) bs"

definition icon_svg :: string where
  "icon_svg = ''<svg xmlns=\"http://www.w3.org/2000/svg\"><circle r=\"5\"/></svg>''"

definition crlf_svg :: string where
  "crlf_svg = icon_svg @ [CHR 0x0D, CHR 0x0A]"

definition png_bytes :: "byte list" where
  "png_bytes = [0x89, 0x50, 0x4E, 0x47, 0x0D, 0x0A, 0x1A, 0x0A]"

definition hex_digit :: "nat \<Rightarrow> char" where
  "hex_digit d = (if d < 10 then char_of (48 + d) else char_of (55 + d))"

definition percent_encode :: "char \<Rightarrow> string" where
  "percent_encode c =
     (if c \<in> set ''ABCDEFGHIJKLMNOPQRSTUVWXYZabcdefghijklmnopqrstuvwxyz0123456789-_.!~*()''
         \<or> c = CHR 0x27
      then [c]
      else [CHR ''%'', hex_digit (of_char c div 16), hex_digit (of_char c mod 16)])"

definition example_browser :: browser where
  "example_browser =
     \<lparr>readAsText = bytewise,
      readAsDataURL = (\<lambda>f. ''data:'' @ ftype f @ '';base64,''
                            @ (if fbytes f = png_bytes then ''iVBORw0KGgo='' else '''')),
      parsererror = (\<lambda>t. t \<noteq> icon_svg \<and> t \<noteq> crlf_svg),
      textareaValue = normalize_newlines,
      imageSize = (\<lambda>url. if url = ''data:image/png;base64,iVBORw0KGgo='' then Some (100, 50)
                           else None),
      encodeURIComponent = (\<lambda>t. concat (map percent_encode t))\<rparr>"

definition icon_file :: File where
  "icon_file = \<lparr>ftype = ''image/svg+xml'', fbytes = ascii icon_svg\<rparr>"

definition crlf_svg_file :: File where
  "crlf_svg_file = \<lparr>ftype = ''image/svg+xml'', fbytes = ascii crlf_svg\<rparr>"

definition broken_svg_file :: File where
  "broken_svg_file = \<lparr>ftype = ''image/svg+xml'', fbytes = ascii ''<svg''\<rparr>"

definition png_file :: File where
  "png_file = \<lparr>ftype = ''image/png'', fbytes = png_bytes\<rparr>"

definition empty_png_file :: File where
  "empty_png_file = \<lparr>ftype = ''image/png'', fbytes = []\<rparr>"

definition text_file :: File where
  "text_file = \<lparr>ftype = ''text/plain'', fbytes = ascii ''hello''\<rparr>"

text \<open>
  Modelled from the spec: the HTML pages are not among the sources; on load Document State
  is \<open>Placeholder\<close>, nothing is stored and no toast or dialog is open.
\<close>

definition svg_page :: page where
  "svg_page =
     \<lparr>placeholder_hidden = False, content_hidden = True, svgPreview = '''',
      fileInput = Some '''', svgCode = Some '''', copyBtn = True, downloadBtn = False,
      dataset_svgContent = None, currentSvgContent = '''',
      notification_text = '''', notification_classes = [''notification''],
      notificationTimeout = False, overlay = None\<rparr>"

definition image_page :: page where
  "image_page =
     \<lparr>placeholder_hidden = False, content_hidden = True, svgPreview = '''',
      fileInput = Some '''', svgCode = None, copyBtn = False, downloadBtn = True,
      dataset_svgContent = None, currentSvgContent = '''',
      notification_text = '''', notification_classes = [''notification''],
      notificationTimeout = False, overlay = None\<rparr>"

definition sa_page :: standalone where
  "sa_page =
     \<lparr>uploadView_hidden = False, previewContainer_hidden = True, sa_svgPreview = [],
      sa_fileInput = '''', sa_svgCode = '''', custom_alert = None\<rparr>"

definition first_visit :: theme where
  "first_visit =
     \<lparr>dark = False, stored = None, dark_icon_hidden = Some True, light_icon_hidden = Some False\<rparr>"

definition sa_first_visit :: sa_theme where
  "sa_first_visit =
     \<lparr>sa_dark = False, sa_stored = None, sa_dark_icon_hidden = False,
      sa_light_icon_hidden = True\<rparr>"

text \<open>The image page after \<open>png_file\<close> has been selected, read and decoded.\<close>

definition shown_png :: page where
  "shown_png = complete example_browser Load (ImageRead png_file) image_page"

section \<open>The SVG page of the shared script as a transition system\<close>

text \<open>
  The events of the SVG page and the handler each one runs. A read may complete at any
  time and for any file: this covers every interleaving of the reads in flight, and more.
  The \<^verbatim>\<open>drop\<close> event is left out, since its listener raises before it changes anything.
\<close>

datatype svg_event =
  FileChosen "File option"
  | ReadCompleted io_event File
  | ClearClicked
  | BoxClicked msgbox_click
  | CopyClicked bool
  | ToastExpired

definition svg_step :: "browser \<Rightarrow> page \<Rightarrow> svg_event \<Rightarrow> page" where
  "svg_step br s e =
     (case e of
        FileChosen fo \<Rightarrow> fst (fileInput_change s fo)
      | ReadCompleted ev f \<Rightarrow> complete br ev (SvgRead f) s
      | ClearClicked \<Rightarrow> clearBtn_click s
      | BoxClicked c \<Rightarrow> msgbox_clicked c s
      | CopyClicked ok \<Rightarrow> copyBtn_click ok s
      | ToastExpired \<Rightarrow> notification_timer_fires s)"

definition svg_run :: "browser \<Rightarrow> page \<Rightarrow> svg_event list \<Rightarrow> page" where
  "svg_run br s es = foldl (svg_step br) s es"

text \<open>
  The invariant of the specification on the SVG page: the view is in one of its two modes,
  and the stored text is non-empty exactly in Result.
\<close>

definition svg_invariant :: "page \<Rightarrow> bool" where
  "svg_invariant s =
     (svgCode s \<noteq> None \<and> copyBtn s \<and> \<not> downloadBtn s
      \<and> (shows_result s \<or> shows_placeholder s)
      \<and> shows_result s = (svgCode s \<noteq> Some ''''))"

section \<open>Auxiliary facts\<close>

lemma bytewise_ascii: "bytewise (ascii t) = t"
proof -
  have "char_of (unat (of_nat (of_char c) :: byte)) = c" for c :: char
  proof -
    have "(of_char c :: nat) < 256" by (cases c) simp
    then have "unat (of_nat (of_char c) :: byte) = of_char c"
      by (simp add: unat_of_nat)
    then show ?thesis by simp
  qed
  then show ?thesis by (simp add: bytewise_def ascii_def map_idI)
qed

lemma decimal_value_snoc: "decimal_value (t @ [c]) = 10 * decimal_value t + (of_char c - 48)"
  by (simp add: decimal_value_def)

lemma of_char_digit_char: "d < 10 \<Longrightarrow> of_char (digit_char d) = 48 + d"
  by (simp add: digit_char_def)

lemma decimal_value_ToString: "decimal_value (ToString n) = n"
proof (induction n rule: ToString.induct)
  case (1 n)
  show ?case
  proof (cases "n < 10")
    case True
    then show ?thesis
      by (subst ToString.simps) (simp add: decimal_value_def of_char_digit_char)
  next
    case False
    with "1" have "decimal_value (ToString (n div 10)) = n div 10" by simp
    with False show ?thesis
      by (subst ToString.simps) (simp add: decimal_value_snoc of_char_digit_char)
  qed
qed

lemma ToString_100: "ToString 100 = ''100''"
  by code_simp

lemma ToString_50: "ToString 50 = ''50''"
  by code_simp

lemma wrapper_structure:
  "wrapper uri W H = wrapper_root W H @ ''\<newline>  '' @ wrapper_image uri W H @ ''\<newline></svg>''"
  by (simp add: wrapper_def wrapper_root_def wrapper_image_def start_tag_def empty_element_def
      attribute_def)

lemma wrapper_nonempty: "wrapper uri W H \<noteq> ''''"
  by (simp add: wrapper_def)

lemma notified_showNotification: "notified (showNotification s msg type) msg"
  by (simp add: notified_def showNotification_def classList_add_def)

lemma document_showNotification: "document (showNotification s msg type) = document s"
  by (simp add: document_def showNotification_def)

lemma notified_resetView: "notified (resetView s) msg = notified s msg"
  by (simp add: notified_def resetView_def)

lemma shows_placeholder_resetView: "shows_placeholder (resetView s)"
  by (simp add: shows_placeholder_def resetView_def)

lemma svg_reader_onload_ok:
  "\<not> parsererror br t \<Longrightarrow>
   svg_reader_onload br s t =
     s\<lparr>svgPreview := t, svgCode := map_option (\<lambda>_. textareaValue br t) (svgCode s),
       placeholder_hidden := True, content_hidden := False\<rparr>"
  by (simp add: svg_reader_onload_def svg_try_def)

lemma svg_reader_onload_malformed:
  "parsererror br t \<Longrightarrow>
   svg_reader_onload br s t = resetView (showNotification s ''Malformed SVG file.'' ''error'')"
  by (simp add: svg_reader_onload_def svg_try_def)

lemma example_reads_icon: "readAsText example_browser (fbytes icon_file) = icon_svg"
  by (simp add: example_browser_def icon_file_def bytewise_ascii)

lemma example_reads_broken: "readAsText example_browser (fbytes broken_svg_file) = ''<svg''"
  by (simp add: example_browser_def broken_svg_file_def bytewise_ascii)

lemma example_parses_icon: "\<not> parsererror example_browser icon_svg"
  by (simp add: example_browser_def)

lemma example_rejects_broken: "parsererror example_browser ''<svg''"
  by (simp add: example_browser_def icon_svg_def crlf_svg_def)

lemma normalize_newlines_no_CR: "CHR 0x0D \<notin> set t \<Longrightarrow> normalize_newlines t = t"
  by (induction t rule: normalize_newlines.induct) auto

lemma normalize_newlines_final_CRLF:
  "CHR 0x0D \<notin> set t \<Longrightarrow> normalize_newlines (t @ [CHR 0x0D, CHR 0x0A]) = t @ [CHR 0x0A]"
proof (induction t)
  case Nil
  then show ?case by simp
next
  case (Cons c t)
  then show ?case by (cases t) auto
qed

lemma normalize_newlines_CR_free: "CHR 0x0D \<notin> set (normalize_newlines t)"
  by (induction t rule: normalize_newlines.induct) auto

lemma icon_svg_no_CR: "CHR 0x0D \<notin> set icon_svg"
  by (simp add: icon_svg_def)

lemma example_textarea:
  "textareaValue example_browser icon_svg = icon_svg"
  "textareaValue example_browser crlf_svg = icon_svg @ [CHR 0x0A]"
  "textareaValue example_browser ''<svg'' = ''<svg''"
  by (simp_all add: example_browser_def crlf_svg_def normalize_newlines_no_CR
      normalize_newlines_final_CRLF icon_svg_no_CR)

lemma example_reads_crlf: "readAsText example_browser (fbytes crlf_svg_file) = crlf_svg"
  by (simp add: example_browser_def crlf_svg_file_def bytewise_ascii)

lemma example_parses_crlf: "\<not> parsererror example_browser crlf_svg"
  by (simp add: example_browser_def)

lemma example_png_url:
  "readAsDataURL example_browser png_file = ''data:image/png;base64,iVBORw0KGgo=''"
  by (simp add: example_browser_def png_file_def)

lemma example_png_size:
  "imageSize example_browser ''data:image/png;base64,iVBORw0KGgo='' = Some (100, 50)"
  by (simp add: example_browser_def)

lemma example_empty_png:
  "imageSize example_browser (readAsDataURL example_browser empty_png_file) = None"
  by (simp add: example_browser_def empty_png_file_def png_bytes_def)

lemma example_ftypes:
  "ftype icon_file = ''image/svg+xml''" "ftype broken_svg_file = ''image/svg+xml''"
  "ftype png_file = ''image/png''" "ftype empty_png_file = ''image/png''"
  "ftype text_file = ''text/plain''" "ftype crlf_svg_file = ''image/svg+xml''"
  by (simp_all add: icon_file_def broken_svg_file_def png_file_def empty_png_file_def
      text_file_def crlf_svg_file_def)

lemma svg_page_elements:
  "svgCode svg_page = Some ''''" "copyBtn svg_page" "\<not> downloadBtn svg_page"
  "\<not> placeholder_hidden svg_page" "content_hidden svg_page"
  by (simp_all add: svg_page_def)

lemma image_page_elements:
  "svgCode image_page = None" "downloadBtn image_page"
  "\<not> placeholder_hidden image_page" "content_hidden image_page"
  "currentSvgContent image_page = ''''"
  by (simp_all add: image_page_def)

lemma shown_png_facts:
  "shows_result shown_png"
  "currentSvgContent shown_png = wrapper ''data:image/png;base64,iVBORw0KGgo='' 100 50"
  "svgPreview shown_png = wrapper ''data:image/png;base64,iVBORw0KGgo='' 100 50"
  "downloadBtn shown_png" "placeholder_hidden shown_png" "overlay shown_png = None"
  by (simp_all add: shown_png_def complete_def image_reader_onload_def example_png_url
      example_png_size img_onload_def shows_result_def image_page_def)

lemma decode_failure_only_notifies:
  "imageSize br (readAsDataURL br f) = None \<Longrightarrow>
   complete br Load (ImageRead f) s = showNotification s ''Could not load the image file.'' ''error''"
  by (simp add: complete_def image_reader_onload_def img_onerror_def)

lemma read_error_resets_view:
  "complete br Error (ImageRead f) s =
     resetView (showNotification s ''Could not read the file.'' ''error'')"
  by (simp add: complete_def image_reader_onerror_def)

lemma currentSvgContent_kept:
  "currentSvgContent (resetView s) = currentSvgContent s"
  "currentSvgContent (showNotification s msg type) = currentSvgContent s"
  by (simp_all add: resetView_def showNotification_def)

lemma drop_raises: "\<exists>e. dropZone_drop s files = Inl e"
  by (simp add: dropZone_drop_def)

subsection \<open>The invariant of the SVG page\<close>

lemma svg_invariant_showNotification:
  "svg_invariant (showNotification s msg type) = svg_invariant s"
  by (simp add: svg_invariant_def showNotification_def shows_result_def shows_placeholder_def)

lemma svg_invariant_resetView:
  "svgCode s \<noteq> None \<Longrightarrow> copyBtn s \<Longrightarrow> \<not> downloadBtn s \<Longrightarrow> svg_invariant (resetView s)"
  by (auto simp: svg_invariant_def resetView_def shows_result_def shows_placeholder_def)

lemma svg_invariant_overlay:
  "svg_invariant (s\<lparr>overlay := m\<rparr>) = svg_invariant s"
  by (simp add: svg_invariant_def shows_result_def shows_placeholder_def)

lemma svg_invariant_elements:
  "svg_invariant s \<Longrightarrow> svgCode s \<noteq> None \<and> copyBtn s \<and> \<not> downloadBtn s"
  by (simp add: svg_invariant_def)

lemma svg_invariant_complete:
  assumes "parsererror br ''''" and "svg_invariant s"
    and nonempty: "\<And>t. t \<noteq> '''' \<Longrightarrow> textareaValue br t \<noteq> ''''"
  shows "svg_invariant (complete br ev (SvgRead f) s)"
proof (cases ev)
  case Load
  show ?thesis
  proof (cases "parsererror br (readAsText br (fbytes f))")
    case True
    with Load assms(2) show ?thesis
      by (simp add: complete_def svg_reader_onload_malformed svg_invariant_resetView
          svg_invariant_elements showNotification_def)
  next
    case False
    with assms(1) have "readAsText br (fbytes f) \<noteq> ''''" by auto
    then have "textareaValue br (readAsText br (fbytes f)) \<noteq> ''''" by (rule nonempty)
    with False Load assms(2) show ?thesis
      by (auto simp: complete_def svg_reader_onload_ok svg_invariant_def shows_result_def
          shows_placeholder_def)
  qed
next
  case Error
  with assms(2) show ?thesis
    by (simp add: complete_def svg_reader_onerror_def svg_invariant_resetView
        svg_invariant_elements showNotification_def)
qed

lemma svg_invariant_close:
  assumes "svg_invariant s"
  shows "svg_invariant (close v s)"
proof (cases "overlay s")
  case None
  with assms show ?thesis by (simp add: close_def)
next
  case (Some m)
  from assms have e: "svgCode s \<noteq> None" "copyBtn s" "\<not> downloadBtn s"
    by (simp_all add: svg_invariant_def)
  from e have "svg_invariant (resetView (s\<lparr>overlay := None\<rparr>))"
    by (simp add: svg_invariant_resetView)
  with Some assms e show ?thesis
    by (cases "awaiting m") (simp_all add: close_def Let_def svg_invariant_overlay)
qed

lemma svg_invariant_step:
  assumes "parsererror br ''''" and "svg_invariant s"
    and nonempty: "\<And>t. t \<noteq> '''' \<Longrightarrow> textareaValue br t \<noteq> ''''"
  shows "svg_invariant (svg_step br s e)"
proof (cases e)
  case (FileChosen fo)
  with assms(2) show ?thesis
    by (cases fo)
       (simp_all add: svg_step_def fileInput_change_def processSvgFile_def
         svg_invariant_showNotification svg_invariant_elements)
next
  case (ReadCompleted ev f)
  with assms(1,2) show ?thesis by (simp add: svg_step_def svg_invariant_complete nonempty)
next
  case ClearClicked
  with assms(2) show ?thesis
    by (simp add: svg_step_def clearBtn_click_def showMsgBox_def svg_invariant_overlay)
next
  case (BoxClicked c)
  with assms(2) show ?thesis
    by (cases c)
       (simp_all add: svg_step_def msgbox_clicked_def svg_invariant_close split: option.splits)
next
  case (CopyClicked ok)
  with assms(2) show ?thesis
    by (simp add: svg_step_def copyBtn_click_def showMsgBox_def svg_invariant_overlay
        svg_invariant_showNotification split: option.splits)
next
  case ToastExpired
  with assms(2) show ?thesis
    by (auto simp: svg_step_def notification_timer_fires_def svg_invariant_def shows_result_def
        shows_placeholder_def)
qed

lemma svg_invariant_run:
  "parsererror br '''' \<Longrightarrow> svg_invariant s \<Longrightarrow>
   (\<And>t. t \<noteq> '''' \<Longrightarrow> textareaValue br t \<noteq> '''') \<Longrightarrow>
   svg_invariant (svg_run br s es)"
  by (induction es rule: rev_induct) (simp_all add: svg_run_def svg_invariant_step)

lemma svg_page_invariant:
  "parsererror br '''' \<Longrightarrow> (\<And>t. t \<noteq> '''' \<Longrightarrow> textareaValue br t \<noteq> '''') \<Longrightarrow>
   svg_invariant (svg_run br svg_page es)"
  by (rule svg_invariant_run)
     (simp_all add: svg_invariant_def svg_page_def shows_result_def shows_placeholder_def)

section \<open>The claims\<close>

text \<open>
  C1, as stated, fails for a text with a CR in it. The file \<open>crlf_svg_file\<close> has the SVG
  MIME type and holds the \<^verbatim>\<open>icon.svg\<close> of the specification followed by CR LF, which is
  well-formed. Both scripts assign the decoded text to the text area and show the Result
  view, and the value the text area then returns ends in LF alone: it is not the decoded
  text.
\<close>

theorem crlf_text_is_altered:
  "ftype crlf_svg_file = ''image/svg+xml''
   \<and> \<not> parsererror example_browser (readAsText example_browser (fbytes crlf_svg_file))
   \<and> readAsText example_browser (fbytes crlf_svg_file) = icon_svg @ [CHR 0x0D, CHR 0x0A]
   \<and> shows_result (complete example_browser Load (SvgRead crlf_svg_file) svg_page)
   \<and> svgCode (complete example_browser Load (SvgRead crlf_svg_file) svg_page)
       = Some (icon_svg @ [CHR 0x0A])
   \<and> svgCode (complete example_browser Load (SvgRead crlf_svg_file) svg_page)
       \<noteq> Some (readAsText example_browser (fbytes crlf_svg_file))
   \<and> sa_svgCode
        (handleFile_onload example_browser sa_page
           (readAsText example_browser (fbytes crlf_svg_file)))
       = icon_svg @ [CHR 0x0A]
   \<and> sa_svgCode
        (handleFile_onload example_browser sa_page
           (readAsText example_browser (fbytes crlf_svg_file)))
       \<noteq> readAsText example_browser (fbytes crlf_svg_file)"
  by (simp add: example_ftypes example_reads_crlf example_parses_crlf complete_def
      svg_reader_onload_ok example_textarea shows_result_def svg_page_elements
      handleFile_onload_def)
     (simp add: crlf_svg_def)

text \<open>
  C1, amended. A file of the SVG MIME type whose text parses without a \<^verbatim>\<open>parsererror\<close> is
  accepted by the intake (the read is started and nothing else changes), and when the read
  completes, in whatever state \<open>s\<close> the page then is, the Result view is shown, the toast is
  untouched, and the value of the text area is the text the reader decoded from the bytes
  as the text area returns it. Under the rule of the HTML standard that value has no CR,
  and it is the decoded text itself when the decoded text has no CR. The self-contained
  script stores the same value and shows its Result view.
\<close>

theorem svg_text_stored_as_textarea_value:
  "ftype f = ''image/svg+xml'' \<Longrightarrow> \<not> parsererror br (readAsText br (fbytes f)) \<Longrightarrow>
   svgCode s \<noteq> None \<Longrightarrow>
   processSvgFile s0 (Some f) = (s0, [SvgRead f])
   \<and> svgCode (complete br Load (SvgRead f) s)
       = Some (textareaValue br (readAsText br (fbytes f)))
   \<and> shows_result (complete br Load (SvgRead f) s)
   \<and> notification_text (complete br Load (SvgRead f) s) = notification_text s
   \<and> notification_classes (complete br Load (SvgRead f) s) = notification_classes s
   \<and> handleFile u (Some f) = (u, Some f)
   \<and> sa_svgCode (handleFile_onload br u (readAsText br (fbytes f)))
       = textareaValue br (readAsText br (fbytes f))
   \<and> sa_shows_result (handleFile_onload br u (readAsText br (fbytes f)))
   \<and> CHR 0x0D \<notin> set (normalize_newlines t)
   \<and> (CHR 0x0D \<notin> set t \<longrightarrow> normalize_newlines t = t)"
  by (auto simp: processSvgFile_def complete_def svg_reader_onload_ok shows_result_def
      handleFile_def handleFile_onload_def sa_shows_result_def normalize_newlines_no_CR
      normalize_newlines_CR_free)

theorem svg_text_stored_as_textarea_value_witness:
  "processSvgFile svg_page (Some icon_file) = (svg_page, [SvgRead icon_file])
   \<and> svgCode (complete example_browser Load (SvgRead icon_file) svg_page) = Some icon_svg
   \<and> shows_result (complete example_browser Load (SvgRead icon_file) svg_page)
   \<and> sa_svgCode (handleFile_onload example_browser sa_page icon_svg) = icon_svg
   \<and> sa_shows_result (handleFile_onload example_browser sa_page icon_svg)
   \<and> normalize_newlines icon_svg = icon_svg"
proof -
  have a: "ftype icon_file = ''image/svg+xml''" by (simp add: example_ftypes)
  have b: "\<not> parsererror example_browser (readAsText example_browser (fbytes icon_file))"
    by (simp add: example_reads_icon example_parses_icon)
  have c: "svgCode svg_page \<noteq> None" by (simp add: svg_page_elements)
  show ?thesis
    using svg_text_stored_as_textarea_value [OF a b c, of svg_page sa_page icon_svg]
    by (elim conjE) (simp add: example_reads_icon example_textarea icon_svg_no_CR)
qed

text \<open>
  C2, as stated, fails on the self-contained script: \<^verbatim>\<open>handleFile\<close> never parses. The file
  \<open>broken_svg_file\<close> has the SVG MIME type and the text \<^verbatim>\<open><svg\<close>, which is not well-formed XML;
  the script starts the read, and on its completion stores the text and shows the Result
  view, with no alert.
\<close>

theorem handleFile_shows_malformed_text:
  "parsererror example_browser (readAsText example_browser (fbytes broken_svg_file))
   \<and> handleFile sa_page (Some broken_svg_file) = (sa_page, Some broken_svg_file)
   \<and> sa_shows_result
        (handleFile_onload example_browser sa_page
           (readAsText example_browser (fbytes broken_svg_file)))
   \<and> \<not> sa_shows_placeholder
        (handleFile_onload example_browser sa_page
           (readAsText example_browser (fbytes broken_svg_file)))
   \<and> sa_svgCode
        (handleFile_onload example_browser sa_page
           (readAsText example_browser (fbytes broken_svg_file))) = ''<svg''
   \<and> custom_alert
        (handleFile_onload example_browser sa_page
           (readAsText example_browser (fbytes broken_svg_file))) = None"
  by (simp add: example_reads_broken example_rejects_broken handleFile_def
      handleFile_onload_def sa_shows_result_def sa_shows_placeholder_def
      example_ftypes example_textarea sa_page_def)

text \<open>
  C2, amended. In the shared script, when the text read from the file is not well-formed
  XML, the completion of the read shows the toast \<^verbatim>\<open>Malformed SVG file.\<close> and resets the view:
  the placeholder is shown, the output is hidden, the preview and the text area are empty.
  The self-contained script makes no such check: it assigns whatever text was read to the
  text area and shows its Result view.
\<close>

theorem malformed_svg_rejected:
  "parsererror br (readAsText br (fbytes f)) \<Longrightarrow>
   complete br Load (SvgRead f) s = resetView (showNotification s ''Malformed SVG file.'' ''error'')
   \<and> notified (complete br Load (SvgRead f) s) ''Malformed SVG file.''
   \<and> shows_placeholder (complete br Load (SvgRead f) s)
   \<and> svgPreview (complete br Load (SvgRead f) s) = ''''
   \<and> svgCode (complete br Load (SvgRead f) s) = map_option (\<lambda>_. '''') (svgCode s)
   \<and> sa_shows_result (handleFile_onload br u (readAsText br (fbytes f)))
   \<and> sa_svgCode (handleFile_onload br u (readAsText br (fbytes f)))
       = textareaValue br (readAsText br (fbytes f))"
  by (simp add: complete_def svg_reader_onload_malformed notified_resetView
      notified_showNotification shows_placeholder_resetView)
     (simp add: resetView_def showNotification_def handleFile_onload_def sa_shows_result_def)

theorem malformed_svg_rejected_witness:
  "notified (complete example_browser Load (SvgRead broken_svg_file) svg_page)
     ''Malformed SVG file.''
   \<and> shows_placeholder (complete example_browser Load (SvgRead broken_svg_file) svg_page)
   \<and> svgCode (complete example_browser Load (SvgRead broken_svg_file) svg_page) = Some ''''"
proof -
  have a: "parsererror example_browser (readAsText example_browser (fbytes broken_svg_file))"
    by (simp add: example_reads_broken example_rejects_broken)
  show ?thesis
    using malformed_svg_rejected [OF a, of svg_page sa_page]
    by (elim conjE) (simp add: svg_page_elements)
qed

text \<open>
  C3, as stated, fails: the shared script picks the processor by the page it runs on, not
  by the MIME type. On the SVG page a PNG file is refused with the invalid-type toast and no
  read is started; on the image page a file of the SVG MIME type starts with
  \<^verbatim>\<open>image/\<close> and is handed to the image wrapper.
\<close>

theorem intake_not_by_mime_type:
  "fileInput_change svg_page (Some png_file) =
     (showNotification svg_page ''Invalid file type. Please upload an SVG.'' ''error'', [])
   \<and> fileInput_change image_page (Some icon_file) = (image_page, [ImageRead icon_file])"
  by (simp add: fileInput_change_def processSvgFile_def processImageFile_def
      svg_page_elements image_page_elements example_ftypes)

text \<open>
  C3, amended. The processor is fixed by the page. On the SVG page (\<^verbatim>\<open>svgCode\<close> and
  \<^verbatim>\<open>copyBtn\<close> present, no \<^verbatim>\<open>downloadBtn\<close>) a selected file starts an SVG read exactly when its
  MIME type is the SVG type. On the image page (\<^verbatim>\<open>downloadBtn\<close> present, no \<^verbatim>\<open>svgCode\<close>) it
  starts an image read exactly when its MIME type starts with \<^verbatim>\<open>image/\<close>, the SVG type
  included. The self-contained script starts a read exactly for the SVG type. Every other
  file gets a user-facing message (a toast, or the alert box of the self-contained script),
  starts no read and leaves Document State as it was.
\<close>

theorem intake_by_page:
  "svgCode s \<noteq> None \<Longrightarrow> copyBtn s \<Longrightarrow> \<not> downloadBtn s \<Longrightarrow>
   downloadBtn p \<Longrightarrow> svgCode p = None \<Longrightarrow>
   fileInput_change s (Some f) =
     (if ftype f = ''image/svg+xml'' then (s, [SvgRead f])
      else (showNotification s ''Invalid file type. Please upload an SVG.'' ''error'', []))
   \<and> fileInput_change p (Some f) =
     (if prefix ''image/'' (ftype f) then (p, [ImageRead f])
      else (showNotification p ''Invalid file type. Please upload a PNG or JPG.'' ''error'', []))
   \<and> handleFile u (Some f) =
     (if ftype f = ''image/svg+xml'' then (u, Some f)
      else (u\<lparr>custom_alert := Some ''Please select a valid SVG file.''\<rparr>, None))
   \<and> document (showNotification s msg type) = document s
   \<and> document (showNotification p msg type) = document p
   \<and> notified (showNotification s msg type) msg
   \<and> notified (showNotification p msg type) msg"
  by (simp add: fileInput_change_def processSvgFile_def processImageFile_def handleFile_def
      document_showNotification notified_showNotification)

theorem intake_by_page_witness:
  "fileInput_change svg_page (Some text_file) =
     (showNotification svg_page ''Invalid file type. Please upload an SVG.'' ''error'', [])
   \<and> fileInput_change image_page (Some text_file) =
     (showNotification image_page ''Invalid file type. Please upload a PNG or JPG.'' ''error'', [])
   \<and> handleFile sa_page (Some text_file) =
     (sa_page\<lparr>custom_alert := Some ''Please select a valid SVG file.''\<rparr>, None)
   \<and> document (showNotification svg_page ''Invalid file type. Please upload an SVG.'' ''error'')
       = document svg_page"
proof -
  have a: "svgCode svg_page \<noteq> None" "copyBtn svg_page" "\<not> downloadBtn svg_page"
    by (simp_all add: svg_page_elements)
  have b: "downloadBtn image_page" "svgCode image_page = None"
    by (simp_all add: image_page_elements)
  show ?thesis
    using intake_by_page [OF a b, of text_file sa_page
        "''Invalid file type. Please upload an SVG.''" "''error''"]
    by (elim conjE) (simp add: example_ftypes)
qed

text \<open>
  C4. A file whose MIME type starts with \<^verbatim>\<open>image/\<close> is accepted by the image wrapper, and
  when its data URL decodes to a picture of width \<open>W\<close> and height \<open>H\<close>, the synthesized text
  is the root element \<^verbatim>\<open>svg\<close> with the attributes \<^verbatim>\<open>xmlns\<close>, \<^verbatim>\<open>width\<close> = \<open>W\<close>, \<^verbatim>\<open>height\<close> = \<open>H\<close> and
  \<^verbatim>\<open>viewBox\<close> = \<^verbatim>\<open>0 0 W H\<close>, around one \<^verbatim>\<open>image\<close> element whose \<^verbatim>\<open>href\<close> is the data URL of
  the file and whose width and height are \<open>W\<close> and \<open>H\<close> again. The numbers are written in
  decimal and read back as \<open>W\<close> and \<open>H\<close>. The text is kept in \<^verbatim>\<open>currentSvgContent\<close>, injected
  into the preview, and the Result view is shown.
\<close>

theorem wrapper_declares_dimensions:
  "prefix ''image/'' (ftype f) \<Longrightarrow> imageSize br (readAsDataURL br f) = Some (W, H) \<Longrightarrow>
   processImageFile s0 (Some f) = (s0, [ImageRead f])
   \<and> currentSvgContent (complete br Load (ImageRead f) s) =
       wrapper_root W H @ ''\<newline>  '' @ wrapper_image (readAsDataURL br f) W H @ ''\<newline></svg>''
   \<and> svgPreview (complete br Load (ImageRead f) s) =
       currentSvgContent (complete br Load (ImageRead f) s)
   \<and> shows_result (complete br Load (ImageRead f) s)
   \<and> decimal_value (ToString W) = W
   \<and> decimal_value (ToString H) = H"
  by (simp add: processImageFile_def complete_def image_reader_onload_def img_onload_def
      shows_result_def decimal_value_ToString wrapper_structure)

theorem wrapper_declares_dimensions_witness:
  "processImageFile image_page (Some png_file) = (image_page, [ImageRead png_file])
   \<and> currentSvgContent (complete example_browser Load (ImageRead png_file) image_page) =
       ''<svg xmlns=\"http://www.w3.org/2000/svg\" width=\"100\" height=\"50\" viewBox=\"0 0 100 50\">''
       @ ''\<newline>  <image href=\"data:image/png;base64,iVBORw0KGgo=\" width=\"100\" height=\"50\"/>''
       @ ''\<newline></svg>''
   \<and> shows_result (complete example_browser Load (ImageRead png_file) image_page)"
proof -
  have a: "prefix ''image/'' (ftype png_file)" by (simp add: example_ftypes)
  have b: "imageSize example_browser (readAsDataURL example_browser png_file) = Some (100, 50)"
    by (simp add: example_png_url example_png_size)
  show ?thesis
    using wrapper_declares_dimensions [OF a b, of image_page image_page]
    by (elim conjE)
       (simp add: example_png_url wrapper_root_def wrapper_image_def start_tag_def
         empty_element_def attribute_def ToString_100 ToString_50)
qed

text \<open>
  C5 holds on the SVG page (\<open>svg_page_invariant\<close>, for a parser that rejects the empty
  text and a text area that returns a non-empty value for a non-empty text) and fails on
  the image page. There \<^verbatim>\<open>reader.onerror\<close> calls the \<^verbatim>\<open>resetView\<close> of the
  closure, which does not know \<^verbatim>\<open>currentSvgContent\<close>, where the Clear action calls the
  override \<^verbatim>\<open>window.resetView\<close>, which empties it. After \<open>png_file\<close> has been shown, a read
  error on the next file brings the placeholder back and leaves the old wrapper in
  \<^verbatim>\<open>currentSvgContent\<close>, which the download button then delivers; confirming Clear in the
  same state empties it.
\<close>

theorem read_error_leaves_stale_wrapper:
  "shows_placeholder (complete example_browser Error (ImageRead empty_png_file) shown_png)
   \<and> currentSvgContent (complete example_browser Error (ImageRead empty_png_file) shown_png)
       = wrapper ''data:image/png;base64,iVBORw0KGgo='' 100 50
   \<and> currentSvgContent (complete example_browser Error (ImageRead empty_png_file) shown_png)
       \<noteq> ''''
   \<and> snd (downloadBtn_click
            (complete example_browser Error (ImageRead empty_png_file) shown_png))
       = Some (wrapper ''data:image/png;base64,iVBORw0KGgo='' 100 50)
   \<and> shows_placeholder (msgbox_clicked OkBtn (clearBtn_click shown_png))
   \<and> currentSvgContent (msgbox_clicked OkBtn (clearBtn_click shown_png)) = ''''"
proof -
  have "msgbox_clicked OkBtn (clearBtn_click shown_png)
        = window_resetView (shown_png\<lparr>overlay := None\<rparr>)"
    by (simp add: msgbox_clicked_def clearBtn_click_def showMsgBox_def close_def
        shown_png_facts)
  then show ?thesis
    by (simp add: read_error_resets_view shows_placeholder_resetView currentSvgContent_kept
        shown_png_facts wrapper_nonempty downloadBtn_click_def window_resetView_def)
       (simp add: shows_placeholder_def resetView_def)
qed

text \<open>
  C6 fails when a Result is already shown. \<^verbatim>\<open>img.onerror\<close> only shows the toast, where
  \<^verbatim>\<open>reader.onerror\<close> of the same function also resets the view. After \<open>png_file\<close> has been
  shown, a file that does not decode leaves the Result view and the old wrapper in place;
  a read error in the same state brings the placeholder back.
\<close>

theorem decode_error_keeps_result:
  "shows_result shown_png
   \<and> notified (complete example_browser Load (ImageRead empty_png_file) shown_png)
       ''Could not load the image file.''
   \<and> shows_result (complete example_browser Load (ImageRead empty_png_file) shown_png)
   \<and> \<not> shows_placeholder (complete example_browser Load (ImageRead empty_png_file) shown_png)
   \<and> document (complete example_browser Load (ImageRead empty_png_file) shown_png)
       = document shown_png
   \<and> shows_placeholder (complete example_browser Error (ImageRead empty_png_file) shown_png)"
proof -
  have "shows_result (showNotification shown_png ''Could not load the image file.'' ''error'')"
    using shown_png_facts(1) by (simp add: shows_result_def showNotification_def)
  then show ?thesis
    by (simp add: decode_failure_only_notifies [OF example_empty_png] shown_png_facts
        notified_showNotification document_showNotification read_error_resets_view
        shows_placeholder_resetView)
       (simp add: shows_result_def shows_placeholder_def)
qed

text \<open>
  C7. \<^verbatim>\<open>resetView\<close>, the override \<^verbatim>\<open>window.resetView\<close> of the image page and the reset handler
  of the self-contained script are idempotent, and the state after one call is the
  Placeholder state: placeholder shown, output hidden, preview, text area and data attribute
  emptied where the element exists, the selection of the file input cleared; the override
  also empties \<^verbatim>\<open>currentSvgContent\<close>.
\<close>

theorem reset_idempotent:
  "resetView (resetView s) = resetView s
   \<and> window_resetView (window_resetView s) = window_resetView s
   \<and> resetBtn_click (resetBtn_click u) = resetBtn_click u
   \<and> shows_placeholder (resetView s)
   \<and> svgPreview (resetView s) = ''''
   \<and> fileInput (resetView s) = map_option (\<lambda>_. '''') (fileInput s)
   \<and> svgCode (resetView s) = map_option (\<lambda>_. '''') (svgCode s)
   \<and> dataset_svgContent (resetView s) = (if downloadBtn s then Some '''' else dataset_svgContent s)
   \<and> shows_placeholder (window_resetView s)
   \<and> currentSvgContent (window_resetView s) = ''''
   \<and> document (window_resetView s) = document ((resetView s)\<lparr>currentSvgContent := ''''\<rparr>)
   \<and> sa_shows_placeholder (resetBtn_click u)
   \<and> sa_fileInput (resetBtn_click u) = ''''
   \<and> sa_svgPreview (resetBtn_click u) = []
   \<and> sa_svgCode (resetBtn_click u) = ''''"
  by (simp add: resetView_def window_resetView_def resetBtn_click_def shows_placeholder_def
      sa_shows_placeholder_def option.map_comp comp_def)

text \<open>
  C8, as stated, fails on a first visit, when nothing is stored yet: the handler writes
  the entry on every click and never removes it, so after two clicks the entry is
  \<^verbatim>\<open>light\<close> where there was none.
\<close>

theorem toggle_twice_on_first_visit:
  "theme_loaded first_visit = first_visit
   \<and> stored first_visit = None
   \<and> stored (themeToggleBtn_click (themeToggleBtn_click first_visit)) = Some ''light''
   \<and> sa_updateThemeIcons sa_first_visit = sa_first_visit
   \<and> sa_stored sa_first_visit = None
   \<and> sa_stored (themeToggleButton_click (themeToggleButton_click sa_first_visit))
       = Some ''light''"
  by (simp add: first_visit_def sa_first_visit_def theme_loaded_def updateThemeIcons_def
      themeToggleBtn_click_def sa_updateThemeIcons_def themeToggleButton_click_def)

text \<open>
  C8, amended. In a state whose icons mirror the root class, as the call of
  \<^verbatim>\<open>updateThemeIcons\<close> on load leaves them, two clicks return the root class and both icon
  flags to their values and leave the entry naming the current theme: the whole state is
  the starting one with that entry. So the entry returns to its value exactly when it
  named the current theme already, which it does after any click: a click followed by two
  more is that click. Both scripts behave so.
\<close>

theorem toggle_twice:
  "theme_loaded t = t \<Longrightarrow> sa_updateThemeIcons v = v \<Longrightarrow>
   themeToggleBtn_click (themeToggleBtn_click t)
     = t\<lparr>stored := Some (if dark t then ''dark'' else ''light'')\<rparr>
   \<and> themeToggleButton_click (themeToggleButton_click v)
     = v\<lparr>sa_stored := Some (if sa_dark v then ''dark'' else ''light'')\<rparr>
   \<and> themeToggleBtn_click (themeToggleBtn_click (themeToggleBtn_click t0))
     = themeToggleBtn_click t0
   \<and> themeToggleButton_click (themeToggleButton_click (themeToggleButton_click v0))
     = themeToggleButton_click v0"
proof -
  assume t: "theme_loaded t = t" and v: "sa_updateThemeIcons v = v"
  have a: "themeToggleBtn_click (themeToggleBtn_click t)
           = t\<lparr>stored := Some (if dark t then ''dark'' else ''light'')\<rparr>"
    using t
    by (cases t)
       (auto simp: theme_loaded_def themeToggleBtn_click_def updateThemeIcons_def Let_def
         split: if_splits)
  have b: "themeToggleButton_click (themeToggleButton_click v)
           = v\<lparr>sa_stored := Some (if sa_dark v then ''dark'' else ''light'')\<rparr>"
    using v
    by (cases v)
       (auto simp: themeToggleButton_click_def sa_updateThemeIcons_def Let_def
         split: if_splits)
  have c: "themeToggleBtn_click (themeToggleBtn_click (themeToggleBtn_click t0))
           = themeToggleBtn_click t0"
    by (cases t0)
       (auto simp: themeToggleBtn_click_def updateThemeIcons_def Let_def)
  have d: "themeToggleButton_click (themeToggleButton_click (themeToggleButton_click v0))
           = themeToggleButton_click v0"
    by (cases v0)
       (auto simp: themeToggleButton_click_def sa_updateThemeIcons_def Let_def)
  from a b c d show ?thesis by simp
qed

theorem toggle_twice_witness:
  "themeToggleBtn_click (themeToggleBtn_click (themeToggleBtn_click first_visit))
     = themeToggleBtn_click first_visit
   \<and> themeToggleBtn_click (themeToggleBtn_click first_visit)
     = first_visit\<lparr>stored := Some ''light''\<rparr>
   \<and> themeToggleButton_click (themeToggleButton_click sa_first_visit)
     = sa_first_visit\<lparr>sa_stored := Some ''light''\<rparr>"
proof -
  have a: "theme_loaded first_visit = first_visit"
    by (simp add: first_visit_def theme_loaded_def updateThemeIcons_def)
  have b: "sa_updateThemeIcons sa_first_visit = sa_first_visit"
    by (simp add: sa_first_visit_def sa_updateThemeIcons_def)
  have c: "\<not> dark first_visit" "\<not> sa_dark sa_first_visit"
    by (simp_all add: first_visit_def sa_first_visit_def)
  show ?thesis
    using toggle_twice [OF a b, of first_visit sa_first_visit] c
    by (elim conjE) simp
qed

text \<open>
  C9. While the placeholder is shown, a click on Clear returns at once: the state, the
  overlay included, is the one before the click. While it is hidden, the click opens the
  confirmation box and changes nothing else; a click on Cancel or on the backdrop removes
  the box and leaves the state as it was before the click on Clear, and only a click on OK
  resets the view.
\<close>

theorem clear_prompts_only_at_result:
  "\<not> placeholder_hidden s \<Longrightarrow> placeholder_hidden r \<Longrightarrow>
   clearBtn_click s = s
   \<and> overlay (clearBtn_click r)
       = Some \<lparr>title = ''Confirm Clear'',
               message = ''Are you sure you want to clear the current SVG?'',
               isConfirm = True, awaiting = ConfirmClear\<rparr>
   \<and> document (clearBtn_click r) = document r
   \<and> msgbox_clicked Backdrop (clearBtn_click r) = r\<lparr>overlay := None\<rparr>
   \<and> msgbox_clicked CancelBtn (clearBtn_click r) = r\<lparr>overlay := None\<rparr>
   \<and> msgbox_clicked OkBtn (clearBtn_click r)
       = (if downloadBtn r then window_resetView (r\<lparr>overlay := None\<rparr>)
          else resetView (r\<lparr>overlay := None\<rparr>))"
  by (simp add: clearBtn_click_def showMsgBox_def msgbox_clicked_def close_def document_def)

theorem clear_prompts_only_at_result_witness:
  "clearBtn_click svg_page = svg_page
   \<and> overlay (clearBtn_click shown_png)
       = Some \<lparr>title = ''Confirm Clear'',
               message = ''Are you sure you want to clear the current SVG?'',
               isConfirm = True, awaiting = ConfirmClear\<rparr>
   \<and> msgbox_clicked Backdrop (clearBtn_click shown_png) = shown_png
   \<and> msgbox_clicked CancelBtn (clearBtn_click shown_png) = shown_png"
proof -
  have a: "\<not> placeholder_hidden svg_page" by (simp add: svg_page_elements)
  have b: "placeholder_hidden shown_png" by (simp add: shown_png_facts)
  have c: "shown_png\<lparr>overlay := None\<rparr> = shown_png"
    using shown_png_facts(6) by (cases shown_png) simp
  show ?thesis
    using clear_prompts_only_at_result [OF a b] c
    by (elim conjE) simp
qed

text \<open>
  C10. Called with no file, \<^verbatim>\<open>processSvgFile\<close> and \<^verbatim>\<open>processImageFile\<close> return at once: the state
  is the one they were given, toast included, and no read is started. The same holds for
  the \<^verbatim>\<open>change\<close> event of the file input with an empty selection, on every page.
\<close>

theorem absent_file_ignored:
  "processSvgFile s None = (s, [])
   \<and> processImageFile s None = (s, [])
   \<and> fileInput_change s None = (s, [])"
  by (simp add: processSvgFile_def processImageFile_def fileInput_change_def)

end
